theory Spec2Isabelle
  imports Main
begin

section \<open>JavaScript values read by the plugin\<close>

text \<open>
  The value that \<^verbatim>\<open>response.json()\<close> resolves to. An object is the list of its
  members in the order of the JSON text; as in \<^verbatim>\<open>JSON.parse\<close>, the last member with a
  given key is the one a property read sees. Numbers are the integer-valued ones that
  JavaScript prints in plain decimal; \<^verbatim>\<open>undefined\<close> never occurs inside a parsed
  value and is the \<open>None\<close> of a property read.
\<close>

datatype jsval =
    JNull
  | JBool bool
  | JNum int
  | JStr string
  | JArr "jsval list"
  | JObj "(string \<times> jsval) list"

text \<open>Thrown values: the two properties of an error object that the plugin reads.\<close>

record js_error =
  name :: string
  message :: string

definition new_Error :: "string \<Rightarrow> js_error" where
  "new_Error msg = \<lparr>name = ''Error'', message = msg\<rparr>"

definition new_TypeError :: "string \<Rightarrow> js_error" where
  "new_TypeError msg = \<lparr>name = ''TypeError'', message = msg\<rparr>"

text \<open>Truthiness, as \<^verbatim>\<open>!v\<close> and \<^verbatim>\<open>v || w\<close> test it.\<close>

fun truthy :: "jsval \<Rightarrow> bool" where
  "truthy JNull = False"
| "truthy (JBool b) = b"
| "truthy (JNum n) = (n \<noteq> 0)"
| "truthy (JStr s) = (s \<noteq> [])"
| "truthy (JArr xs) = True"
| "truthy (JObj kvs) = True"

text \<open>
  \<^verbatim>\<open>v.k\<close> for a value that is neither null nor undefined, for the keys the plugin
  reads (\<^verbatim>\<open>error\<close>, \<^verbatim>\<open>message\<close>, \<^verbatim>\<open>candidates\<close>, \<^verbatim>\<open>content\<close>, \<^verbatim>\<open>parts\<close>,
  \<^verbatim>\<open>text\<close>): only an object can have them.
\<close>

fun get_prop :: "string \<Rightarrow> jsval \<Rightarrow> jsval option" where
  "get_prop k (JObj kvs) = map_of (rev kvs) k"
| "get_prop k v = None"

text \<open>\<^verbatim>\<open>v[0]\<close>: the first element of an array, the first character of a string, the
  member \<^verbatim>\<open>"0"\<close> of an object.\<close>

fun get_index0 :: "jsval \<Rightarrow> jsval option" where
  "get_index0 (JArr xs) = (case xs of [] \<Rightarrow> None | x # rest \<Rightarrow> Some x)"
| "get_index0 (JStr s) = (case s of [] \<Rightarrow> None | c # rest \<Rightarrow> Some (JStr [c]))"
| "get_index0 (JObj kvs) = map_of (rev kvs) ''0''"
| "get_index0 v = None"

text \<open>Optional chaining \<^verbatim>\<open>a?.b\<close>: undefined when \<open>a\<close> is null or undefined.\<close>

fun opt_chain :: "jsval option \<Rightarrow> (jsval \<Rightarrow> jsval option) \<Rightarrow> jsval option" where
  "opt_chain None f = None"
| "opt_chain (Some JNull) f = None"
| "opt_chain (Some v) f = f v"

text \<open>Decimal digits of a natural number, as a template literal prints it.\<close>

fun dec_nat :: "nat \<Rightarrow> string" where
  "dec_nat n =
     (if n < 10 then [''0123456789'' ! n]
      else dec_nat (n div 10) @ [''0123456789'' ! (n mod 10)])"

declare dec_nat.simps [simp del]

fun join_commas :: "string list \<Rightarrow> string" where
  "join_commas [] = []"
| "join_commas [x] = x"
| "join_commas (x # y # ys) = x @ '','' @ join_commas (y # ys)"

text \<open>String conversion of a value interpolated into a template literal, for values
  without a member \<^verbatim>\<open>toString\<close> of their own and numbers below \<open>10^21\<close> in
  magnitude (JavaScript prints larger ones with an exponent).\<close>

fun js_to_string :: "jsval \<Rightarrow> string" where
  "js_to_string JNull = ''null''"
| "js_to_string (JBool b) = (if b then ''true'' else ''false'')"
| "js_to_string (JNum n) = (if n < 0 then CHR ''-'' # dec_nat (nat (- n)) else dec_nat (nat n))"
| "js_to_string (JStr s) = s"
| "js_to_string (JArr xs) =
     join_commas (map (\<lambda>v. case v of JNull \<Rightarrow> [] | _ \<Rightarrow> js_to_string v) xs)"
| "js_to_string (JObj kvs) = ''[object Object]''"

section \<open>Settings, history records and the plugin's state\<close>

text \<open>
  \<^verbatim>\<open>rewrittenText\<close> is declared a string, but holds whatever truthy value the response
  had at the text path: the code does not check that it is a string. \<^verbatim>\<open>maxHistoryItems\<close>
  is an integer (the slider of the settings tab moves in steps of 1); nothing in the code
  keeps a loaded value from being negative.
\<close>

record RewriteHistoryItem =
  originalText :: string
  rewrittenText :: jsval
  prompt :: string
  timestamp :: int
  model :: string

record GeminiRewriteSettings =
  geminiApiKey :: string
  customPrompt :: string
  useEnvApiKey :: bool
  maxHistoryItems :: int
  rewriteHistory :: "RewriteHistoryItem list"
  selectedModel :: string

text \<open>A call of \<^verbatim>\<open>fetch\<close>: its URL, the object given to \<^verbatim>\<open>JSON.stringify\<close> and the
  abort controller whose signal it carries.\<close>

record request =
  url :: string
  body :: jsval
  signal :: nat

text \<open>
  The fields of the plugin object (\<open>settings\<close>, \<open>abortController\<close>, the text of
  \<open>statusBarItem\<close>) and what its calls leave in the host: abort controllers are
  numbered in the order of their creation, \<open>aborted\<close> lists those whose
  \<^verbatim>\<open>abort()\<close> was called, \<open>fetched\<close> the requests issued, \<open>notices\<close> the
  texts of the notices shown, \<open>console\<close> the errors given to \<^verbatim>\<open>console.error\<close>,
  \<open>saved\<close> the settings last given to \<^verbatim>\<open>saveData\<close>, and \<open>replaced\<close> the values
  given to \<^verbatim>\<open>editor.replaceSelection\<close>.
\<close>

record state =
  settings :: GeminiRewriteSettings
  abortController :: "nat option"
  statusBarItem :: string
  controllers :: nat
  aborted :: "nat list"
  fetched :: "request list"
  notices :: "string list"
  console :: "js_error list"
  saved :: "GeminiRewriteSettings option"
  replaced :: "jsval list"

definition GEMINI_MODELS :: "(string \<times> string) list" where
  "GEMINI_MODELS =
     [(''gemini-pro'', ''Gemini Pro''),
      (''gemini-1.5-pro'', ''Gemini 1.5 Pro''),
      (''gemini-2.0-pro'', ''Gemini 2.0 Pro''),
      (''gemini-2.0-flash'', ''Gemini 2.0 Flash (Faster)''),
      (''gemini-2.5-pro-exp-03-25'', ''Gemini 2.5 Pro (Experimental)'')]"

definition notice :: "string \<Rightarrow> state \<Rightarrow> state" where
  "notice txt s = s\<lparr>notices := notices s @ [txt]\<rparr>"

definition saveSettings :: "state \<Rightarrow> state" where
  "saveSettings s = s\<lparr>saved := Some (settings s)\<rparr>"

text \<open>The status text starts with the four UTF-8 bytes of U+1F504. The display name is
  looked up among the five keys of the table itself; a model identifier that names a
  member of \<^verbatim>\<open>Object.prototype\<close> (such as \<^verbatim>\<open>toString\<close>) is outside this model.\<close>

definition setLoadingState :: "bool \<Rightarrow> state \<Rightarrow> state" where
  "setLoadingState isLoading s =
     (if isLoading then
        let modelDisplay =
              (case map_of GEMINI_MODELS (selectedModel (settings s)) of
                 Some d \<Rightarrow> d
               | None \<Rightarrow> selectedModel (settings s))
        in s\<lparr>statusBarItem :=
               [CHR 0xF0, CHR 0x9F, CHR 0x94, CHR 0x84] @ '' Rewriting with '' @ modelDisplay @ ''...''\<rparr>
      else s\<lparr>statusBarItem := []\<rparr>)"

definition cancelOngoingRewrite :: "state \<Rightarrow> state" where
  "cancelOngoingRewrite s =
     (case abortController s of
        None \<Rightarrow> s
      | Some c \<Rightarrow>
          notice ''Rewrite request cancelled''
            (setLoadingState False (s\<lparr>aborted := aborted s @ [c], abortController := None\<rparr>)))"

text \<open>The callback of the command \<^verbatim>\<open>gemini-cancel-rewrite\<close>.\<close>

definition cancelCommand :: "state \<Rightarrow> state" where
  "cancelCommand s =
     cancelOngoingRewrite (notice ''Attempting to cancel ongoing rewrite request'' s)"

section \<open>The history log\<close>

text \<open>\<^verbatim>\<open>xs.slice(0, e)\<close>: a negative end counts from the end of the array.\<close>

definition js_slice0 :: "int \<Rightarrow> 'a list \<Rightarrow> 'a list" where
  "js_slice0 e xs =
     (if e < 0 then take (nat (int (length xs) + e)) xs else take (nat e) xs)"

text \<open>The array after \<^verbatim>\<open>xs.splice(start, deleteCount)\<close>.\<close>

definition js_splice :: "int \<Rightarrow> nat \<Rightarrow> 'a list \<Rightarrow> 'a list" where
  "js_splice start deleteCount xs =
     (let len = int (length xs);
          actualStart = (if start < 0 then max (len + start) 0 else min start len);
          actualDeleteCount = min (int deleteCount) (len - actualStart)
      in take (nat actualStart) xs @ drop (nat (actualStart + actualDeleteCount)) xs)"

text \<open>\<open>now\<close> is the reading of \<^verbatim>\<open>Date.now()\<close>.\<close>

definition addToHistory :: "string \<Rightarrow> jsval \<Rightarrow> string \<Rightarrow> int \<Rightarrow> state \<Rightarrow> state" where
  "addToHistory original rewritten usedPrompt now s =
     (let historyItem =
            \<lparr>originalText = original, rewrittenText = rewritten, prompt = usedPrompt,
             timestamp = now, model = selectedModel (settings s)\<rparr>;
          unshifted = historyItem # rewriteHistory (settings s);
          limited =
            (if int (length unshifted) > maxHistoryItems (settings s)
             then js_slice0 (maxHistoryItems (settings s)) unshifted
             else unshifted)
      in saveSettings (s\<lparr>settings := (settings s)\<lparr>rewriteHistory := limited\<rparr>\<rparr>))"

text \<open>The click handler of the Delete button of the history item that
  \<^verbatim>\<open>forEach\<close> rendered at position \<open>index\<close>.\<close>

definition deleteHistoryItem :: "nat \<Rightarrow> state \<Rightarrow> state" where
  "deleteHistoryItem index s =
     notice ''History item deleted''
       (saveSettings
          (s\<lparr>settings :=
               (settings s)\<lparr>rewriteHistory := js_splice (int index) 1 (rewriteHistory (settings s))\<rparr>\<rparr>))"

text \<open>The appends of a list of (original, rewritten, prompt, time), first to last.\<close>

fun addAllToHistory :: "(string \<times> jsval \<times> string \<times> int) list \<Rightarrow> state \<Rightarrow> state" where
  "addAllToHistory [] s = s"
| "addAllToHistory ((original, rewritten, usedPrompt, now) # rest) s =
     addAllToHistory rest (addToHistory original rewritten usedPrompt now s)"

section \<open>The rewrite engine\<close>

text \<open>
  The key the request is made with. \<open>env\<close> is \<^verbatim>\<open>process.env.GEMINI_API_KEY\<close>,
  \<open>None\<close> when the variable is unset.
\<close>

definition apiKey_of :: "string option \<Rightarrow> GeminiRewriteSettings \<Rightarrow> string" where
  "apiKey_of env cfg =
     (if useEnvApiKey cfg then
        (case env of
           None \<Rightarrow> geminiApiKey cfg
         | Some k \<Rightarrow> if k \<noteq> [] then k else geminiApiKey cfg)
      else geminiApiKey cfg)"

definition missing_key_message :: string where
  "missing_key_message =
     ''Gemini API key is not set. Please add it to your .env file or plugin settings.''"

definition invalid_response_message :: string where
  "invalid_response_message = ''Invalid response from Gemini API''"

definition request_body :: "string \<Rightarrow> string \<Rightarrow> jsval" where
  "request_body usedPrompt txt =
     JObj [(''contents'',
        JArr [JObj [(''parts'',
          JArr [JObj [(''text'', JStr (usedPrompt @ [CHR 0x0A, CHR 0x0A] @ txt))]])]])]"

text \<open>
  \<^verbatim>\<open>callGeminiAPI\<close> up to its \<^verbatim>\<open>await fetch(...)\<close>: a new abort controller is
  tracked, then either the missing key is thrown (before the \<^verbatim>\<open>try\<close>, so its
  \<^verbatim>\<open>finally\<close> does not run) or the request is issued.
\<close>

definition callGeminiAPI_issue ::
    "string option \<Rightarrow> string \<Rightarrow> state \<Rightarrow> state \<times> (js_error + request)" where
  "callGeminiAPI_issue env txt s =
     (let c = controllers s;
          s1 = s\<lparr>abortController := Some c, controllers := Suc c\<rparr>;
          apiKey = apiKey_of env (settings s1)
      in if apiKey = [] then (s1, Inl (new_Error missing_key_message))
         else
           let endpoint =
                 ''https://generativelanguage.googleapis.com/v1beta/models/''
                   @ selectedModel (settings s1) @ '':generateContent'';
               req = \<lparr>url = endpoint @ ''?key='' @ apiKey,
                      body = request_body (customPrompt (settings s1)) txt,
                      signal = c\<rparr>
           in (s1\<lparr>fetched := fetched s1 @ [req]\<rparr>, Inr req))"

text \<open>
  What the awaited \<^verbatim>\<open>fetch\<close> gives back: a rejection (a network failure, or an
  \<^verbatim>\<open>AbortError\<close> when the signal was aborted), or a response with its status and
  what \<^verbatim>\<open>response.json()\<close> settles to (\<open>Inl\<close> when it rejects).
\<close>

record response =
  status :: nat
  json_result :: "js_error + jsval"

datatype fetch_outcome = Rejected js_error | Resolved response

definition ok :: "response \<Rightarrow> bool" where
  "ok r = (200 \<le> status r \<and> status r \<le> 299)"

text \<open>\<^verbatim>\<open>data.candidates?.[0]?.content?.parts?.[0]?.text\<close>, for \<open>data\<close> not null.\<close>

definition text_path :: "jsval \<Rightarrow> jsval option" where
  "text_path data =
     opt_chain
       (opt_chain
          (opt_chain
             (opt_chain
                (opt_chain (get_prop ''candidates'' data) get_index0)
                (get_prop ''content''))
             (get_prop ''parts''))
          get_index0)
       (get_prop ''text'')"

text \<open>\<^verbatim>\<open>errorData?.error?.message || `Status: ${response.status}`\<close>, interpolated.\<close>

definition error_message_of :: "response \<Rightarrow> string" where
  "error_message_of r =
     (let errorData = (case json_result r of Inl e \<Rightarrow> JNull | Inr d \<Rightarrow> d)
      in case opt_chain (opt_chain (Some errorData) (get_prop ''error'')) (get_prop ''message'') of
           None \<Rightarrow> ''Status: '' @ dec_nat (status r)
         | Some m \<Rightarrow> if truthy m then js_to_string m else ''Status: '' @ dec_nat (status r))"

text \<open>
  The body of the \<^verbatim>\<open>try\<close> after the response has arrived. Reading
  \<^verbatim>\<open>data.candidates\<close> of a null \<open>data\<close> throws a TypeError (the message is V8's).
\<close>

definition read_response :: "response \<Rightarrow> js_error + jsval" where
  "read_response r =
     (if \<not> ok r then Inl (new_Error (''API request failed: '' @ error_message_of r))
      else
        (case json_result r of
           Inl e \<Rightarrow> Inl e
         | Inr data \<Rightarrow>
             (case data of
                JNull \<Rightarrow>
                  Inl (new_TypeError ''Cannot read properties of null (reading 'candidates')'')
              | _ \<Rightarrow>
                  (case text_path data of
                     None \<Rightarrow> Inl (new_Error invalid_response_message)
                   | Some t \<Rightarrow>
                       if truthy t then Inr t
                       else Inl (new_Error invalid_response_message)))))"

text \<open>
  \<^verbatim>\<open>callGeminiAPI\<close> from the moment its awaits settle: the \<^verbatim>\<open>catch\<close> logs and
  rethrows, the \<^verbatim>\<open>finally\<close> clears the tracked controller. Between the two awaits
  the code touches only the response, so they are one suspension here, and \<open>s\<close> is the
  state at the time the call goes on.
\<close>

definition callGeminiAPI_complete ::
    "fetch_outcome \<Rightarrow> state \<Rightarrow> state \<times> (js_error + jsval)" where
  "callGeminiAPI_complete outcome s =
     (let res = (case outcome of Rejected e \<Rightarrow> Inl e | Resolved r \<Rightarrow> read_response r);
          s1 = (case res of Inl e \<Rightarrow> s\<lparr>console := console s @ [e]\<rparr> | Inr t \<Rightarrow> s)
      in (s1\<lparr>abortController := None\<rparr>, res))"

text \<open>A call of \<^verbatim>\<open>callGeminiAPI\<close> with nothing else running while it waits.\<close>

definition callGeminiAPI ::
    "string option \<Rightarrow> string \<Rightarrow> fetch_outcome \<Rightarrow> state \<Rightarrow> state \<times> (js_error + jsval)" where
  "callGeminiAPI env txt outcome s =
     (case callGeminiAPI_issue env txt s of
        (s1, Inl e) \<Rightarrow> (s1, Inl e)
      | (s1, Inr req) \<Rightarrow> callGeminiAPI_complete outcome s1)"

text \<open>The \<^verbatim>\<open>catch\<close> and \<^verbatim>\<open>finally\<close> of \<^verbatim>\<open>rewriteWithGemini\<close>.\<close>

definition rewriteWithGemini_catch :: "js_error \<Rightarrow> state \<Rightarrow> state" where
  "rewriteWithGemini_catch e s =
     setLoadingState False
       (if name e \<noteq> ''AbortError'' then
          notice (''Error: '' @ (if message e \<noteq> [] then message e else ''Failed to rewrite text''))
            (s\<lparr>console := console s @ [e]\<rparr>)
        else s)"

text \<open>The rest of its \<^verbatim>\<open>try\<close> once \<^verbatim>\<open>callGeminiAPI\<close> has returned, and the
  \<^verbatim>\<open>finally\<close>. The editor's \<^verbatim>\<open>replaceSelection\<close> is the host's and is taken to
  return.\<close>

definition rewriteWithGemini_then :: "string \<Rightarrow> jsval \<Rightarrow> int \<Rightarrow> state \<Rightarrow> state" where
  "rewriteWithGemini_then selection rewritten now s =
     setLoadingState False
       (notice ''Text successfully rewritten''
          (addToHistory selection rewritten (customPrompt (settings s)) now
             (s\<lparr>replaced := replaced s @ [rewritten]\<rparr>)))"

text \<open>
  \<^verbatim>\<open>rewriteWithGemini\<close> up to the await of the request; \<open>selection\<close> is what
  \<^verbatim>\<open>editor.getSelection()\<close> returned. The flag tells whether a request is now awaited.
\<close>

definition rewriteWithGemini_start :: "string option \<Rightarrow> string \<Rightarrow> state \<Rightarrow> state \<times> bool" where
  "rewriteWithGemini_start env selection s =
     (if selection = [] then (notice ''No text selected'' s, False)
      else
        (case callGeminiAPI_issue env selection (setLoadingState True s) of
           (s1, Inl e) \<Rightarrow> (rewriteWithGemini_catch e s1, False)
         | (s1, Inr req) \<Rightarrow> (s1, True)))"

text \<open>\<^verbatim>\<open>rewriteWithGemini\<close> from the moment its request settles, in the state of
  that moment.\<close>

definition rewriteWithGemini_resume :: "string \<Rightarrow> fetch_outcome \<Rightarrow> int \<Rightarrow> state \<Rightarrow> state" where
  "rewriteWithGemini_resume selection outcome now s =
     (case callGeminiAPI_complete outcome s of
        (s1, Inl e) \<Rightarrow> rewriteWithGemini_catch e s1
      | (s1, Inr rewritten) \<Rightarrow> rewriteWithGemini_then selection rewritten now s1)"

text \<open>A whole run of \<^verbatim>\<open>rewriteWithGemini\<close> with nothing else running while it waits.\<close>

definition rewriteWithGemini ::
    "string option \<Rightarrow> string \<Rightarrow> fetch_outcome \<Rightarrow> int \<Rightarrow> state \<Rightarrow> state" where
  "rewriteWithGemini env selection outcome now s =
     (case rewriteWithGemini_start env selection s of
        (s1, False) \<Rightarrow> s1
      | (s1, True) \<Rightarrow> rewriteWithGemini_resume selection outcome now s1)"

section \<open>Notions used in the statements\<close>

abbreviation history :: "state \<Rightarrow> RewriteHistoryItem list" where
  "history s \<equiv> rewriteHistory (settings s)"

text \<open>The record that \<^verbatim>\<open>addToHistory\<close> builds from its arguments, the time and the
  selected model.\<close>

definition historyItem_of ::
    "string \<Rightarrow> string \<times> jsval \<times> string \<times> int \<Rightarrow> RewriteHistoryItem" where
  "historyItem_of usedModel a =
     (case a of (original, rewritten, usedPrompt, now) \<Rightarrow>
        \<lparr>originalText = original, rewrittenText = rewritten, prompt = usedPrompt,
         timestamp = now, model = usedModel\<rparr>)"

text \<open>Concrete inputs: settings with a key typed into the settings tab and a limit of
  two records, in a plugin that has just been loaded; responses, bodies and an abort.\<close>

definition example_settings :: GeminiRewriteSettings where
  "example_settings =
     \<lparr>geminiApiKey = ''k'', customPrompt = ''Please rewrite the following text:'',
      useEnvApiKey = True, maxHistoryItems = 2, rewriteHistory = [],
      selectedModel = ''gemini-2.0-flash''\<rparr>"

definition example_state :: state where
  "example_state =
     \<lparr>settings = example_settings, abortController = None, statusBarItem = [],
      controllers = 0, aborted = [], fetched = [], notices = [], console = [],
      saved = None, replaced = []\<rparr>"

definition three_appends :: "(string \<times> jsval \<times> string \<times> int) list" where
  "three_appends =
     [(''a'', JStr ''A'', ''p'', 1), (''b'', JStr ''B'', ''p'', 2), (''c'', JStr ''C'', ''p'', 3)]"

definition rate_limited_response :: response where
  "rate_limited_response =
     \<lparr>status = 429,
      json_result = Inr (JObj [(''error'', JObj [(''message'', JStr ''rate limited'')])])\<rparr>"

definition unparsable_503_response :: response where
  "unparsable_503_response =
     \<lparr>status = 503,
      json_result = Inl \<lparr>name = ''SyntaxError'', message = ''Unexpected token < in JSON at position 0''\<rparr>\<rparr>"

definition rewritten_body :: jsval where
  "rewritten_body =
     JObj [(''candidates'',
       JArr [JObj [(''content'',
         JObj [(''parts'', JArr [JObj [(''text'', JStr ''Rewritten.'')]])])]])]"

definition empty_text_body :: jsval where
  "empty_text_body =
     JObj [(''candidates'',
       JArr [JObj [(''content'',
         JObj [(''parts'', JArr [JObj [(''text'', JStr [])]])])]])]"

definition abort_error :: js_error where
  "abort_error = \<lparr>name = ''AbortError'', message = ''The user aborted a request.''\<rparr>"

definition two_records :: "RewriteHistoryItem list" where
  "two_records =
     [historyItem_of ''gemini-pro'' (''b'', JStr ''B'', ''p'', 2),
      historyItem_of ''gemini-pro'' (''a'', JStr ''A'', ''p'', 1)]"

definition keyless_state :: state where
  "keyless_state = example_state\<lparr>settings := example_settings\<lparr>geminiApiKey := []\<rparr>\<rparr>"

text \<open>The request that a call on \<open>txt\<close> in state \<open>s\<close> makes when it carries the key
  \<open>k\<close>: the endpoint of the selected model with \<open>k\<close> as the \<^verbatim>\<open>key\<close> parameter, the
  prompt and the text as body, and the signal of the controller created for the call.\<close>

definition request_with_key :: "string \<Rightarrow> string \<Rightarrow> state \<Rightarrow> request" where
  "request_with_key k txt s =
     \<lparr>url = ''https://generativelanguage.googleapis.com/v1beta/models/''
              @ selectedModel (settings s) @ '':generateContent?key='' @ k,
      body = request_body (customPrompt (settings s)) txt,
      signal = controllers s\<rparr>"

section \<open>The history log keeps its bound and its order\<close>

lemma js_slice0_nonneg: "0 \<le> e \<Longrightarrow> js_slice0 e xs = take (nat e) xs"
  by (simp add: js_slice0_def)

lemma addToHistory_history:
  assumes "0 \<le> maxHistoryItems (settings s)"
  shows "history (addToHistory a b c t s) =
         take (nat (maxHistoryItems (settings s)))
           (historyItem_of (selectedModel (settings s)) (a, b, c, t) # history s)"
  using assms
  by (simp add: addToHistory_def saveSettings_def Let_def js_slice0_nonneg historyItem_of_def)

lemma addToHistory_keeps:
  "maxHistoryItems (settings (addToHistory a b c t s)) = maxHistoryItems (settings s)"
  "selectedModel (settings (addToHistory a b c t s)) = selectedModel (settings s)"
  "customPrompt (settings (addToHistory a b c t s)) = customPrompt (settings s)"
  "notices (addToHistory a b c t s) = notices s"
  "fetched (addToHistory a b c t s) = fetched s"
  "abortController (addToHistory a b c t s) = abortController s"
  "aborted (addToHistory a b c t s) = aborted s"
  by (simp_all add: addToHistory_def saveSettings_def Let_def)

lemma take_Cons_take: "take n (x # take n xs) = take n (x # xs)"
  by (cases n) simp_all

lemma addAllToHistory_keeps:
  "maxHistoryItems (settings (addAllToHistory as s)) = maxHistoryItems (settings s)"
  "selectedModel (settings (addAllToHistory as s)) = selectedModel (settings s)"
  by (induction as s rule: addAllToHistory.induct) (simp_all add: addToHistory_keeps)

lemma take_append_take: "take n (ys @ take n xs) = take n (ys @ xs)"
  by (simp add: min_def)

lemma addAllToHistory_history:
  assumes "0 \<le> maxHistoryItems (settings s)" "as \<noteq> []"
  shows "history (addAllToHistory as s) =
         take (nat (maxHistoryItems (settings s)))
           (rev (map (historyItem_of (selectedModel (settings s))) as) @ history s)"
  using assms
proof (induction as arbitrary: s)
  case Nil
  then show ?case by simp
next
  case (Cons a as)
  obtain original rewritten usedPrompt now where a: "a = (original, rewritten, usedPrompt, now)"
    by (cases a) auto
  let ?s1 = "addToHistory original rewritten usedPrompt now s"
  have h1: "history ?s1 =
      take (nat (maxHistoryItems (settings s)))
        (historyItem_of (selectedModel (settings s)) a # history s)"
    using Cons.prems(1) by (simp add: a addToHistory_history)
  show ?case
  proof (cases "as = []")
    case True
    then show ?thesis using h1 by (simp add: a)
  next
    case False
    have "history (addAllToHistory as ?s1) =
        take (nat (maxHistoryItems (settings ?s1)))
          (rev (map (historyItem_of (selectedModel (settings ?s1))) as) @ history ?s1)"
      using Cons.IH [of ?s1] Cons.prems(1) False by (simp add: addToHistory_keeps)
    then show ?thesis
      by (simp add: a h1 addToHistory_keeps take_append_take)
  qed
qed

text \<open>
  C1. With a limit \<open>N \<ge> 0\<close>, after any non-empty sequence of appends (so after each
  append of a longer sequence) the log has at most \<open>N\<close> records; it holds the appended
  records newest first, in front of the older ones, cut to \<open>N\<close>; and when \<open>N = 0\<close>
  the log is empty after every append.
\<close>
theorem history_bounded_newest_first:
  assumes "0 \<le> maxHistoryItems (settings s)" and "as \<noteq> []"
  shows "int (length (history (addAllToHistory as s))) \<le> maxHistoryItems (settings s)
       \<and> history (addAllToHistory as s) =
           take (nat (maxHistoryItems (settings s)))
             (rev (map (historyItem_of (selectedModel (settings s))) as) @ history s)
       \<and> (maxHistoryItems (settings s) = 0 \<longrightarrow> history (addAllToHistory as s) = [])"
proof -
  have eq: "history (addAllToHistory as s) =
           take (nat (maxHistoryItems (settings s)))
             (rev (map (historyItem_of (selectedModel (settings s))) as) @ history s)"
    using assms by (rule addAllToHistory_history)
  have "length (history (addAllToHistory as s)) \<le> nat (maxHistoryItems (settings s))"
    by (simp add: eq)
  then have "int (length (history (addAllToHistory as s))) \<le> maxHistoryItems (settings s)"
    using assms(1) by linarith
  moreover have "maxHistoryItems (settings s) = 0 \<longrightarrow> history (addAllToHistory as s) = []"
    by (simp add: eq)
  ultimately show ?thesis using eq by blast
qed

theorem history_bounded_newest_first_witness:
  "map originalText (history (addAllToHistory three_appends example_state)) = [''c'', ''b'']
   \<and> history (addAllToHistory three_appends
        (example_state\<lparr>settings := example_settings\<lparr>maxHistoryItems := 0\<rparr>\<rparr>)) = []"
proof -
  have a: "0 \<le> maxHistoryItems (settings example_state)"
    by (simp add: example_state_def example_settings_def)
  have b: "three_appends \<noteq> []" by (simp add: three_appends_def)
  have c: "0 \<le> maxHistoryItems (settings (example_state\<lparr>settings := example_settings\<lparr>maxHistoryItems := 0\<rparr>\<rparr>))"
    by simp
  from history_bounded_newest_first [OF a b]
  have "history (addAllToHistory three_appends example_state) =
           take (nat (maxHistoryItems (settings example_state)))
             (rev (map (historyItem_of (selectedModel (settings example_state))) three_appends) @ history example_state)"
    by blast
  then have 1: "map originalText (history (addAllToHistory three_appends example_state)) = [''c'', ''b'']"
    by (simp add: example_state_def example_settings_def three_appends_def historyItem_of_def)
  from history_bounded_newest_first [OF c b]
  have 2: "history (addAllToHistory three_appends
        (example_state\<lparr>settings := example_settings\<lparr>maxHistoryItems := 0\<rparr>\<rparr>)) = []"
    by simp
  show ?thesis using 1 2 by blast
qed

section \<open>An empty selection\<close>

text \<open>
  C7. A run of \<^verbatim>\<open>rewriteWithGemini\<close> on an empty selection shows the notice
  ``No text selected'' and does nothing else: no request is issued, the history log is
  unchanged, and \<^verbatim>\<open>callGeminiAPI\<close> is not entered (no abort controller is created
  or tracked).
\<close>

theorem empty_selection_reports_only:
  "rewriteWithGemini_start env [] s = (notice ''No text selected'' s, False)
   \<and> rewriteWithGemini env [] outcome now s = s\<lparr>notices := notices s @ [''No text selected'']\<rparr>
   \<and> fetched (rewriteWithGemini env [] outcome now s) = fetched s
   \<and> history (rewriteWithGemini env [] outcome now s) = history s
   \<and> abortController (rewriteWithGemini env [] outcome now s) = abortController s
   \<and> controllers (rewriteWithGemini env [] outcome now s) = controllers s"
  by (simp add: rewriteWithGemini_def rewriteWithGemini_start_def notice_def)

theorem empty_selection_reports_only_witness:
  "rewriteWithGemini None [] (Resolved \<lparr>status = 200, json_result = Inr rewritten_body\<rparr>) 7 example_state
     = example_state\<lparr>notices := [''No text selected'']\<rparr>"
  using empty_selection_reports_only [of None example_state "Resolved \<lparr>status = 200, json_result = Inr rewritten_body\<rparr>" 7]
  by (simp add: example_state_def)

text \<open>
  C8. The Delete button of the item at position \<open>i\<close>: when \<open>i\<close> is within the log,
  exactly the record at \<open>i\<close> is removed and the others keep their order; when \<open>i\<close> is
  not within the log, the log is unchanged.
\<close>

section \<open>Deleting a history item\<close>

lemma js_splice_index:
  "js_splice (int i) 1 xs = take i xs @ drop (Suc i) xs"
proof (cases "i < length xs")
  case True
  then show ?thesis by (simp add: js_splice_def Let_def min_def nat_add_distrib)
next
  case False
  then show ?thesis by (simp add: js_splice_def Let_def min_def)
qed

lemma deleteHistoryItem_history:
  "history (deleteHistoryItem i s) = take i (history s) @ drop (Suc i) (history s)"
  unfolding deleteHistoryItem_def js_splice_index
  by (simp add: notice_def saveSettings_def)

theorem deleteHistoryItem_removes_one:
  "(i < length (history s) \<longrightarrow>
      history (deleteHistoryItem i s) = take i (history s) @ drop (Suc i) (history s)
      \<and> Suc (length (history (deleteHistoryItem i s))) = length (history s)
      \<and> (\<forall>j. j < i \<longrightarrow> history (deleteHistoryItem i s) ! j = history s ! j)
      \<and> (\<forall>j. i \<le> j \<and> Suc j < length (history s) \<longrightarrow>
             history (deleteHistoryItem i s) ! j = history s ! Suc j))
   \<and> (length (history s) \<le> i \<longrightarrow> history (deleteHistoryItem i s) = history s)"
proof (intro conjI impI allI)
  assume "i < length (history s)"
  then show "Suc (length (history (deleteHistoryItem i s))) = length (history s)"
    by (simp add: deleteHistoryItem_history)
next
  fix j assume "i < length (history s)" "j < i"
  then show "history (deleteHistoryItem i s) ! j = history s ! j"
    by (simp add: deleteHistoryItem_history nth_append)
next
  fix j assume "i < length (history s)" "i \<le> j \<and> Suc j < length (history s)"
  then show "history (deleteHistoryItem i s) ! j = history s ! Suc j"
    by (simp add: deleteHistoryItem_history nth_append min_def)
qed (simp_all add: deleteHistoryItem_history)

theorem deleteHistoryItem_removes_one_witness:
  "history (deleteHistoryItem 0 (example_state\<lparr>settings := example_settings\<lparr>rewriteHistory := two_records\<rparr>\<rparr>))
     = [historyItem_of ''gemini-pro'' (''a'', JStr ''A'', ''p'', 1)]
   \<and> history (deleteHistoryItem 2 (example_state\<lparr>settings := example_settings\<lparr>rewriteHistory := two_records\<rparr>\<rparr>))
     = two_records"
proof -
  let ?s = "example_state\<lparr>settings := example_settings\<lparr>rewriteHistory := two_records\<rparr>\<rparr>"
  have lt: "0 < length (history ?s)" and ge: "length (history ?s) \<le> 2"
    by (simp_all add: two_records_def)
  from deleteHistoryItem_removes_one [of 0 ?s] lt
  have "history (deleteHistoryItem 0 ?s) = take 0 (history ?s) @ drop (Suc 0) (history ?s)"
    by blast
  then have 1: "history (deleteHistoryItem 0 ?s) = [historyItem_of ''gemini-pro'' (''a'', JStr ''A'', ''p'', 1)]"
    by (simp add: two_records_def)
  from deleteHistoryItem_removes_one [of 2 ?s] ge
  have "history (deleteHistoryItem 2 ?s) = history ?s"
    by blast
  then have 2: "history (deleteHistoryItem 2 ?s) = two_records"
    by simp
  show ?thesis using 1 2 by blast
qed

section \<open>What each step of a rewrite changes\<close>

lemma setLoadingState_keeps:
  "settings (setLoadingState b s) = settings s"
  "notices (setLoadingState b s) = notices s"
  "fetched (setLoadingState b s) = fetched s"
  "abortController (setLoadingState b s) = abortController s"
  "controllers (setLoadingState b s) = controllers s"
  "aborted (setLoadingState b s) = aborted s"
  "console (setLoadingState b s) = console s"
  "replaced (setLoadingState b s) = replaced s"
  by (simp_all add: setLoadingState_def Let_def)

lemma notice_keeps:
  "settings (notice t s) = settings s"
  "notices (notice t s) = notices s @ [t]"
  "fetched (notice t s) = fetched s"
  "abortController (notice t s) = abortController s"
  "controllers (notice t s) = controllers s"
  "aborted (notice t s) = aborted s"
  "console (notice t s) = console s"
  "replaced (notice t s) = replaced s"
  by (simp_all add: notice_def)

lemma callGeminiAPI_issue_keeps:
  "settings (fst (callGeminiAPI_issue env txt s)) = settings s"
  "notices (fst (callGeminiAPI_issue env txt s)) = notices s"
  "aborted (fst (callGeminiAPI_issue env txt s)) = aborted s"
  "abortController (fst (callGeminiAPI_issue env txt s)) = Some (controllers s)"
  "controllers (fst (callGeminiAPI_issue env txt s)) = Suc (controllers s)"
  by (simp_all add: callGeminiAPI_issue_def Let_def)

lemma callGeminiAPI_issue_no_key:
  assumes "apiKey_of env (settings s) = []"
  shows "snd (callGeminiAPI_issue env txt s) = Inl (new_Error missing_key_message)"
    and "fetched (fst (callGeminiAPI_issue env txt s)) = fetched s"
  using assms by (simp_all add: callGeminiAPI_issue_def Let_def)

lemma callGeminiAPI_issue_key:
  assumes "apiKey_of env (settings s) \<noteq> []"
  shows "\<exists>req. snd (callGeminiAPI_issue env txt s) = Inr req
           \<and> fetched (fst (callGeminiAPI_issue env txt s)) = fetched s @ [req]"
  using assms by (simp add: callGeminiAPI_issue_def Let_def)

lemma callGeminiAPI_complete_keeps:
  "settings (fst (callGeminiAPI_complete outcome s)) = settings s"
  "notices (fst (callGeminiAPI_complete outcome s)) = notices s"
  "fetched (fst (callGeminiAPI_complete outcome s)) = fetched s"
  "aborted (fst (callGeminiAPI_complete outcome s)) = aborted s"
  "replaced (fst (callGeminiAPI_complete outcome s)) = replaced s"
  "controllers (fst (callGeminiAPI_complete outcome s)) = controllers s"
  "abortController (fst (callGeminiAPI_complete outcome s)) = None"
  by (simp_all add: callGeminiAPI_complete_def Let_def split: sum.splits)

lemma callGeminiAPI_complete_result:
  "snd (callGeminiAPI_complete (Resolved r) s) = read_response r"
  "snd (callGeminiAPI_complete (Rejected e) s) = Inl e"
  by (simp_all add: callGeminiAPI_complete_def Let_def)

lemma rewriteWithGemini_catch_keeps:
  "settings (rewriteWithGemini_catch e s) = settings s"
  "fetched (rewriteWithGemini_catch e s) = fetched s"
  "abortController (rewriteWithGemini_catch e s) = abortController s"
  "aborted (rewriteWithGemini_catch e s) = aborted s"
  "replaced (rewriteWithGemini_catch e s) = replaced s"
  "controllers (rewriteWithGemini_catch e s) = controllers s"
  "notices (rewriteWithGemini_catch e s) =
     (if name e \<noteq> ''AbortError''
      then notices s @ [''Error: '' @ (if message e \<noteq> [] then message e else ''Failed to rewrite text'')]
      else notices s)"
  by (simp_all add: rewriteWithGemini_catch_def setLoadingState_keeps notice_keeps)

lemma rewriteWithGemini_then_keeps:
  "history (rewriteWithGemini_then sel t now s) =
     history (addToHistory sel t (customPrompt (settings s)) now s)"
  "notices (rewriteWithGemini_then sel t now s) = notices s @ [''Text successfully rewritten'']"
  "replaced (rewriteWithGemini_then sel t now s) = replaced s @ [t]"
  "abortController (rewriteWithGemini_then sel t now s) = abortController s"
  "aborted (rewriteWithGemini_then sel t now s) = aborted s"
  "fetched (rewriteWithGemini_then sel t now s) = fetched s"
  "controllers (rewriteWithGemini_then sel t now s) = controllers s"
  by (simp_all add: rewriteWithGemini_then_def setLoadingState_keeps notice_keeps
      addToHistory_def saveSettings_def Let_def)

text \<open>How an uninterrupted call and an uninterrupted run unfold.\<close>

lemma callGeminiAPI_with_key:
  assumes "apiKey_of env (settings s) \<noteq> []"
  shows "callGeminiAPI env txt outcome s =
         callGeminiAPI_complete outcome (fst (callGeminiAPI_issue env txt s))"
  using callGeminiAPI_issue_key [OF assms, of "txt"]
  by (auto simp: callGeminiAPI_def split: prod.splits sum.splits)

lemma callGeminiAPI_without_key:
  assumes "apiKey_of env (settings s) = []"
  shows "callGeminiAPI env txt outcome s =
         (fst (callGeminiAPI_issue env txt s), Inl (new_Error missing_key_message))"
  using callGeminiAPI_issue_no_key [OF assms, of "txt"]
  by (auto simp: callGeminiAPI_def split: prod.splits sum.splits)

lemma rewriteWithGemini_with_key:
  assumes "selection \<noteq> []" "apiKey_of env (settings s) \<noteq> []"
  shows "rewriteWithGemini env selection outcome now s =
         rewriteWithGemini_resume selection outcome now
           (fst (callGeminiAPI_issue env selection (setLoadingState True s)))"
proof -
  have "apiKey_of env (settings (setLoadingState True s)) \<noteq> []"
    using assms(2) by (simp add: setLoadingState_keeps)
  from callGeminiAPI_issue_key [OF this, of selection] show ?thesis
    using assms(1)
    by (auto simp: rewriteWithGemini_def rewriteWithGemini_start_def split: prod.splits sum.splits)
qed

lemma rewriteWithGemini_without_key:
  assumes "selection \<noteq> []" "apiKey_of env (settings s) = []"
  shows "rewriteWithGemini env selection outcome now s =
         rewriteWithGemini_catch (new_Error missing_key_message)
           (fst (callGeminiAPI_issue env selection (setLoadingState True s)))"
proof -
  have "apiKey_of env (settings (setLoadingState True s)) = []"
    using assms(2) by (simp add: setLoadingState_keeps)
  from callGeminiAPI_issue_no_key [OF this, of selection] show ?thesis
    using assms(1)
    by (auto simp: rewriteWithGemini_def rewriteWithGemini_start_def split: prod.splits sum.splits)
qed

lemma rewriteWithGemini_resume_failed:
  assumes "snd (callGeminiAPI_complete outcome s) = Inl e"
  shows "rewriteWithGemini_resume selection outcome now s =
         rewriteWithGemini_catch e (fst (callGeminiAPI_complete outcome s))"
  using assms by (cases "callGeminiAPI_complete outcome s") (simp add: rewriteWithGemini_resume_def)

lemma rewriteWithGemini_resume_succeeded:
  assumes "snd (callGeminiAPI_complete outcome s) = Inr t"
  shows "rewriteWithGemini_resume selection outcome now s =
         rewriteWithGemini_then selection t now (fst (callGeminiAPI_complete outcome s))"
  using assms by (cases "callGeminiAPI_complete outcome s") (simp add: rewriteWithGemini_resume_def)

lemma rewriteWithGemini_start_with_key:
  assumes "selection \<noteq> []" "apiKey_of env (settings s) \<noteq> []"
  shows "rewriteWithGemini_start env selection s =
         (fst (callGeminiAPI_issue env selection (setLoadingState True s)), True)"
proof -
  have "apiKey_of env (settings (setLoadingState True s)) \<noteq> []"
    using assms(2) by (simp add: setLoadingState_keeps)
  from callGeminiAPI_issue_key [OF this, of selection] show ?thesis
    using assms(1)
    by (auto simp: rewriteWithGemini_start_def split: prod.splits sum.splits)
qed

lemma rewriteWithGemini_resume_keeps:
  "abortController (rewriteWithGemini_resume selection outcome now s) = None"
  "aborted (rewriteWithGemini_resume selection outcome now s) = aborted s"
  "fetched (rewriteWithGemini_resume selection outcome now s) = fetched s"
  "controllers (rewriteWithGemini_resume selection outcome now s) = controllers s"
proof -
  show "abortController (rewriteWithGemini_resume selection outcome now s) = None"
    by (cases "snd (callGeminiAPI_complete outcome s)")
      (simp_all add: rewriteWithGemini_resume_failed rewriteWithGemini_resume_succeeded
        rewriteWithGemini_catch_keeps rewriteWithGemini_then_keeps callGeminiAPI_complete_keeps)
  show "aborted (rewriteWithGemini_resume selection outcome now s) = aborted s"
    by (cases "snd (callGeminiAPI_complete outcome s)")
      (simp_all add: rewriteWithGemini_resume_failed rewriteWithGemini_resume_succeeded
        rewriteWithGemini_catch_keeps rewriteWithGemini_then_keeps callGeminiAPI_complete_keeps)
  show "fetched (rewriteWithGemini_resume selection outcome now s) = fetched s"
    by (cases "snd (callGeminiAPI_complete outcome s)")
      (simp_all add: rewriteWithGemini_resume_failed rewriteWithGemini_resume_succeeded
        rewriteWithGemini_catch_keeps rewriteWithGemini_then_keeps callGeminiAPI_complete_keeps)
  show "controllers (rewriteWithGemini_resume selection outcome now s) = controllers s"
    by (cases "snd (callGeminiAPI_complete outcome s)")
      (simp_all add: rewriteWithGemini_resume_failed rewriteWithGemini_resume_succeeded
        rewriteWithGemini_catch_keeps rewriteWithGemini_then_keeps callGeminiAPI_complete_keeps)
qed

lemma cancelOngoingRewrite_untracked:
  "abortController s = None \<Longrightarrow> cancelOngoingRewrite s = s"
  by (simp add: cancelOngoingRewrite_def)

lemma cancelCommand_untracked:
  assumes "abortController s = None"
  shows "aborted (cancelCommand s) = aborted s"
    and "notices (cancelCommand s) = notices s @ [''Attempting to cancel ongoing rewrite request'']"
  using assms by (simp_all add: cancelCommand_def cancelOngoingRewrite_def notice_def)

section \<open>Completion and the tracked abort controller\<close>

text \<open>
  C10. When a request settles, whatever the outcome and whatever controller is tracked at
  that moment, the tracked controller is set to null. So when a second rewrite has been
  started while the first was waiting, the first one's completion clears the second one's
  controller, and the cancel command then aborts nothing.
\<close>

theorem completion_clears_tracked_handle:
  "abortController (fst (callGeminiAPI_complete outcome s)) = None
   \<and> abortController (rewriteWithGemini_resume selection outcome now s) = None
   \<and> cancelOngoingRewrite (rewriteWithGemini_resume selection outcome now s)
       = rewriteWithGemini_resume selection outcome now s
   \<and> (selection \<noteq> [] \<and> newer \<noteq> [] \<and> apiKey_of env (settings s) \<noteq> [] \<longrightarrow>
        (let s1 = fst (rewriteWithGemini_start env selection s);
             s2 = fst (rewriteWithGemini_start env newer s1);
             s3 = rewriteWithGemini_resume selection outcome now s2
         in abortController s1 = Some (controllers s)
          \<and> abortController s2 = Some (Suc (controllers s))
          \<and> signal (last (fetched s2)) = Suc (controllers s)
          \<and> abortController s3 = None
          \<and> cancelOngoingRewrite s3 = s3
          \<and> aborted (cancelCommand s3) = aborted s))"
proof (intro conjI impI)
  show "abortController (fst (callGeminiAPI_complete outcome s)) = None"
    by (simp add: callGeminiAPI_complete_keeps)
  show "abortController (rewriteWithGemini_resume selection outcome now s) = None"
    by (simp add: rewriteWithGemini_resume_keeps)
  show "cancelOngoingRewrite (rewriteWithGemini_resume selection outcome now s)
       = rewriteWithGemini_resume selection outcome now s"
    by (simp add: cancelOngoingRewrite_untracked rewriteWithGemini_resume_keeps)
next
  assume a: "selection \<noteq> [] \<and> newer \<noteq> [] \<and> apiKey_of env (settings s) \<noteq> []"
  define s1 where "s1 = fst (rewriteWithGemini_start env selection s)"
  define s2 where "s2 = fst (rewriteWithGemini_start env newer s1)"
  define s3 where "s3 = rewriteWithGemini_resume selection outcome now s2"
  have s1: "s1 = fst (callGeminiAPI_issue env selection (setLoadingState True s))"
    using a by (simp add: s1_def rewriteWithGemini_start_with_key)
  have k1: "apiKey_of env (settings s1) \<noteq> []"
    using a by (simp add: s1 callGeminiAPI_issue_keeps setLoadingState_keeps)
  have s2: "s2 = fst (callGeminiAPI_issue env newer (setLoadingState True s1))"
    using a k1 by (simp add: s2_def rewriteWithGemini_start_with_key)
  have c1: "abortController s1 = Some (controllers s)" "controllers s1 = Suc (controllers s)"
    "aborted s1 = aborted s"
    by (simp_all add: s1 callGeminiAPI_issue_keeps setLoadingState_keeps)
  have c2: "abortController s2 = Some (Suc (controllers s))" "aborted s2 = aborted s"
    by (simp_all add: s2 callGeminiAPI_issue_keeps setLoadingState_keeps c1)
  have "apiKey_of env (settings (setLoadingState True s1)) \<noteq> []"
    using k1 by (simp add: setLoadingState_keeps)
  then have f2: "signal (last (fetched s2)) = Suc (controllers s)"
    by (simp add: s2 callGeminiAPI_issue_def Let_def setLoadingState_keeps c1)
  have c3: "abortController s3 = None" "aborted s3 = aborted s"
    by (simp_all add: s3_def rewriteWithGemini_resume_keeps c2)
  have "cancelOngoingRewrite s3 = s3" "aborted (cancelCommand s3) = aborted s"
    using c3 by (simp_all add: cancelOngoingRewrite_untracked cancelCommand_untracked)
  with c1 c2 f2 c3
  show "let s1 = fst (rewriteWithGemini_start env selection s);
             s2 = fst (rewriteWithGemini_start env newer s1);
             s3 = rewriteWithGemini_resume selection outcome now s2
         in abortController s1 = Some (controllers s)
          \<and> abortController s2 = Some (Suc (controllers s))
          \<and> signal (last (fetched s2)) = Suc (controllers s)
          \<and> abortController s3 = None
          \<and> cancelOngoingRewrite s3 = s3
          \<and> aborted (cancelCommand s3) = aborted s"
    unfolding Let_def s1_def [symmetric] s2_def [symmetric] s3_def [symmetric] by simp
qed

lemma example_key: "apiKey_of None (settings example_state) = ''k''"
  by (simp add: apiKey_of_def example_state_def example_settings_def)

theorem completion_clears_tracked_handle_witness:
  "abortController (fst (rewriteWithGemini_start None ''second''
      (fst (rewriteWithGemini_start None ''first'' example_state)))) = Some 1
   \<and> abortController (rewriteWithGemini_resume ''first'' (Rejected abort_error) 7
        (fst (rewriteWithGemini_start None ''second''
          (fst (rewriteWithGemini_start None ''first'' example_state))))) = None
   \<and> aborted (cancelCommand (rewriteWithGemini_resume ''first'' (Rejected abort_error) 7
        (fst (rewriteWithGemini_start None ''second''
          (fst (rewriteWithGemini_start None ''first'' example_state)))))) = []"
proof -
  have h: "''first'' \<noteq> [] \<and> ''second'' \<noteq> [] \<and> apiKey_of None (settings example_state) \<noteq> []"
    by (simp add: example_key)
  have c: "controllers example_state = 0" "aborted example_state = []"
    by (simp_all add: example_state_def)
  from completion_clears_tracked_handle
    [of "Rejected abort_error" example_state "''first''" 7 "''second''" None] h
  show ?thesis
    unfolding Let_def c by simp
qed

section \<open>Cancelled requests\<close>

text \<open>
  C6. A rewrite whose request ends in an error named \<^verbatim>\<open>AbortError\<close> appends nothing
  to the history, shows no notice and replaces nothing in the editor: from the moment the
  request settles in any state, and for a whole run.
\<close>

theorem cancelled_rewrite_is_silent:
  assumes "name e = ''AbortError''"
  shows "(snd (callGeminiAPI_complete outcome s) = Inl e \<longrightarrow>
            history (rewriteWithGemini_resume selection outcome now s) = history s
          \<and> notices (rewriteWithGemini_resume selection outcome now s) = notices s
          \<and> replaced (rewriteWithGemini_resume selection outcome now s) = replaced s)
       \<and> (selection \<noteq> [] \<and> snd (callGeminiAPI env selection outcome s) = Inl e \<longrightarrow>
            history (rewriteWithGemini env selection outcome now s) = history s
          \<and> notices (rewriteWithGemini env selection outcome now s) = notices s
          \<and> replaced (rewriteWithGemini env selection outcome now s) = replaced s)"
proof (intro conjI impI)
  assume r: "snd (callGeminiAPI_complete outcome s) = Inl e"
  show "history (rewriteWithGemini_resume selection outcome now s) = history s"
    and "notices (rewriteWithGemini_resume selection outcome now s) = notices s"
    and "replaced (rewriteWithGemini_resume selection outcome now s) = replaced s"
    using assms
    by (simp_all add: rewriteWithGemini_resume_failed [OF r] rewriteWithGemini_catch_keeps
        callGeminiAPI_complete_keeps)
next
  assume a: "selection \<noteq> [] \<and> snd (callGeminiAPI env selection outcome s) = Inl e"
  have key: "apiKey_of env (settings s) \<noteq> []"
  proof
    assume "apiKey_of env (settings s) = []"
    then have "snd (callGeminiAPI env selection outcome s) = Inl (new_Error missing_key_message)"
      by (simp add: callGeminiAPI_without_key)
    with a have "e = new_Error missing_key_message" by simp
    with assms show False by (simp add: new_Error_def)
  qed
  let ?s1 = "fst (callGeminiAPI_issue env selection (setLoadingState True s))"
  have "snd (callGeminiAPI_complete outcome (fst (callGeminiAPI_issue env selection s))) = Inl e"
    using a key by (simp add: callGeminiAPI_with_key)
  then have r: "snd (callGeminiAPI_complete outcome ?s1) = Inl e"
    by (simp add: callGeminiAPI_complete_def Let_def)
  have run: "rewriteWithGemini env selection outcome now s =
      rewriteWithGemini_catch e (fst (callGeminiAPI_complete outcome ?s1))"
    using a key by (simp add: rewriteWithGemini_with_key rewriteWithGemini_resume_failed [OF r])
  show "history (rewriteWithGemini env selection outcome now s) = history s"
    and "notices (rewriteWithGemini env selection outcome now s) = notices s"
    using assms
    by (simp_all add: run rewriteWithGemini_catch_keeps callGeminiAPI_complete_keeps
        callGeminiAPI_issue_keeps setLoadingState_keeps)
  show "replaced (rewriteWithGemini env selection outcome now s) = replaced s"
    by (simp add: run rewriteWithGemini_catch_keeps callGeminiAPI_complete_keeps
        callGeminiAPI_issue_def Let_def setLoadingState_keeps)
qed

theorem cancelled_rewrite_is_silent_witness:
  "history (rewriteWithGemini None ''hello'' (Rejected abort_error) 7 example_state) = []
   \<and> notices (rewriteWithGemini None ''hello'' (Rejected abort_error) 7 example_state) = []
   \<and> history (rewriteWithGemini_resume ''hello'' (Rejected abort_error) 7 example_state) = []
   \<and> notices (rewriteWithGemini_resume ''hello'' (Rejected abort_error) 7 example_state) = []"
proof -
  have n: "name abort_error = ''AbortError''" by (simp add: abort_error_def)
  have r1: "snd (callGeminiAPI_complete (Rejected abort_error) example_state) = Inl abort_error"
    by (simp add: callGeminiAPI_complete_result)
  have r2: "''hello'' \<noteq> [] \<and>
      snd (callGeminiAPI None ''hello'' (Rejected abort_error) example_state) = Inl abort_error"
    by (simp add: callGeminiAPI_with_key example_key callGeminiAPI_complete_result)
  have e: "history example_state = []" "notices example_state = []"
    by (simp_all add: example_state_def example_settings_def)
  from cancelled_rewrite_is_silent [OF n, of "Rejected abort_error" example_state "''hello''" 7 None] r1 r2
  show ?thesis unfolding e by blast
qed

section \<open>Responses\<close>

lemma callGeminiAPI_complete_snd:
  "snd (callGeminiAPI_complete outcome s) =
     (case outcome of Rejected e \<Rightarrow> Inl e | Resolved r \<Rightarrow> read_response r)"
  by (simp add: callGeminiAPI_complete_def Let_def)

lemma callGeminiAPI_result_with_key:
  assumes "apiKey_of env (settings s) \<noteq> []"
  shows "snd (callGeminiAPI env inputText (Resolved r) s) = read_response r"
  using assms by (simp add: callGeminiAPI_with_key callGeminiAPI_complete_snd)

lemma rewriteWithGemini_failed_run:
  assumes "selection \<noteq> []" "apiKey_of env (settings s) \<noteq> []"
    and "read_response r = Inl e" "name e \<noteq> ''AbortError''"
  shows "history (rewriteWithGemini env selection (Resolved r) now s) = history s"
    and "notices (rewriteWithGemini env selection (Resolved r) now s) =
           notices s @ [''Error: '' @ (if message e \<noteq> [] then message e else ''Failed to rewrite text'')]"
    and "replaced (rewriteWithGemini env selection (Resolved r) now s) = replaced s"
proof -
  let ?s1 = "fst (callGeminiAPI_issue env selection (setLoadingState True s))"
  have r: "snd (callGeminiAPI_complete (Resolved r) ?s1) = Inl e"
    using assms(3) by (simp add: callGeminiAPI_complete_snd)
  have run: "rewriteWithGemini env selection (Resolved r) now s =
      rewriteWithGemini_catch e (fst (callGeminiAPI_complete (Resolved r) ?s1))"
    using assms(1,2) by (simp add: rewriteWithGemini_with_key rewriteWithGemini_resume_failed [OF r])
  show "history (rewriteWithGemini env selection (Resolved r) now s) = history s"
    by (simp add: run rewriteWithGemini_catch_keeps callGeminiAPI_complete_keeps
        callGeminiAPI_issue_keeps setLoadingState_keeps)
  show "notices (rewriteWithGemini env selection (Resolved r) now s) =
           notices s @ [''Error: '' @ (if message e \<noteq> [] then message e else ''Failed to rewrite text'')]"
    using assms(4)
    by (simp add: run rewriteWithGemini_catch_keeps callGeminiAPI_complete_keeps
        callGeminiAPI_issue_keeps setLoadingState_keeps)
  show "replaced (rewriteWithGemini env selection (Resolved r) now s) = replaced s"
    by (simp add: run rewriteWithGemini_catch_keeps callGeminiAPI_complete_keeps
        callGeminiAPI_issue_def Let_def setLoadingState_keeps)
qed

lemma text_path_null: "text_path JNull = None"
  by (simp add: text_path_def)

lemma read_response_invalid:
  assumes "ok r" "json_result r = Inr d" "d \<noteq> JNull"
    and "text_path d = None \<or> (\<exists>t. text_path d = Some t \<and> \<not> truthy t)"
  shows "read_response r = Inl (new_Error invalid_response_message)"
  using assms by (auto simp: read_response_def split: jsval.splits)

lemma read_response_text:
  assumes "ok r" "json_result r = Inr d" "text_path d = Some t" "truthy t"
  shows "read_response r = Inr t"
proof -
  have "d \<noteq> JNull" using assms(3) text_path_null by auto
  then show ?thesis using assms by (auto simp: read_response_def split: jsval.splits)
qed

lemma text_path_no_candidate:
  assumes "get_prop ''candidates'' d = Some (JArr [])"
  shows "text_path d = None" and "d \<noteq> JNull"
  using assms by (auto simp: text_path_def)

text \<open>
  C5. A response with a 2xx status whose body has an empty \<^verbatim>\<open>candidates\<close> array
  makes the call fail with the error ``Invalid response from Gemini API''; the history
  log is unchanged.
\<close>

theorem empty_candidates_rejected:
  assumes "selection \<noteq> []" and "apiKey_of env (settings s) \<noteq> []"
    and "ok r" and "json_result r = Inr d" and "get_prop ''candidates'' d = Some (JArr [])"
  shows "snd (callGeminiAPI env selection (Resolved r) s) = Inl (new_Error invalid_response_message)
       \<and> history (rewriteWithGemini env selection (Resolved r) now s) = history s
       \<and> replaced (rewriteWithGemini env selection (Resolved r) now s) = replaced s
       \<and> notices (rewriteWithGemini env selection (Resolved r) now s) =
           notices s @ [''Error: Invalid response from Gemini API'']"
proof -
  have rr: "read_response r = Inl (new_Error invalid_response_message)"
    using assms(3,4) text_path_no_candidate [OF assms(5)] by (simp add: read_response_invalid)
  have n: "name (new_Error invalid_response_message) \<noteq> ''AbortError''"
    by (simp add: new_Error_def)
  show ?thesis
    using rewriteWithGemini_failed_run [OF assms(1,2) rr n, of now]
    by (simp add: callGeminiAPI_result_with_key [OF assms(2)] rr new_Error_def
        invalid_response_message_def)
qed

theorem empty_candidates_rejected_witness:
  "snd (callGeminiAPI None ''hello''
      (Resolved \<lparr>status = 200, json_result = Inr (JObj [(''candidates'', JArr [])])\<rparr>) example_state)
     = Inl \<lparr>name = ''Error'', message = ''Invalid response from Gemini API''\<rparr>
   \<and> history (rewriteWithGemini None ''hello''
      (Resolved \<lparr>status = 200, json_result = Inr (JObj [(''candidates'', JArr [])])\<rparr>) 7 example_state) = []"
proof -
  let ?r = "\<lparr>status = 200, json_result = Inr (JObj [(''candidates'', JArr [])])\<rparr>"
  have h: "''hello'' \<noteq> []" "apiKey_of None (settings example_state) \<noteq> []" "ok ?r"
    "json_result ?r = Inr (JObj [(''candidates'', JArr [])])"
    "get_prop ''candidates'' (JObj [(''candidates'', JArr [])]) = Some (JArr [])"
    by (simp_all add: example_key ok_def)
  have e: "history example_state = []"
    by (simp add: example_state_def example_settings_def)
  from empty_candidates_rejected [OF h, of 7]
  show ?thesis by (simp add: e new_Error_def invalid_response_message_def)
qed

text \<open>
  C9. A response with a 2xx status whose body has the whole path
  \<^verbatim>\<open>candidates[0].content.parts[0].text\<close>, with the empty string there, makes the
  call fail with the error ``Invalid response from Gemini API''; the history log is
  unchanged.
\<close>

theorem empty_text_rejected:
  assumes "selection \<noteq> []" and "apiKey_of env (settings s) \<noteq> []"
    and "ok r" and "json_result r = Inr d" and "text_path d = Some (JStr [])"
  shows "snd (callGeminiAPI env selection (Resolved r) s) = Inl (new_Error invalid_response_message)
       \<and> history (rewriteWithGemini env selection (Resolved r) now s) = history s
       \<and> replaced (rewriteWithGemini env selection (Resolved r) now s) = replaced s
       \<and> notices (rewriteWithGemini env selection (Resolved r) now s) =
           notices s @ [''Error: Invalid response from Gemini API'']"
proof -
  have "d \<noteq> JNull" using assms(5) text_path_null by auto
  then have rr: "read_response r = Inl (new_Error invalid_response_message)"
    using assms(3,4,5) by (simp add: read_response_invalid)
  have n: "name (new_Error invalid_response_message) \<noteq> ''AbortError''"
    by (simp add: new_Error_def)
  show ?thesis
    using rewriteWithGemini_failed_run [OF assms(1,2) rr n, of now]
    by (simp add: callGeminiAPI_result_with_key [OF assms(2)] rr new_Error_def
        invalid_response_message_def)
qed

theorem empty_text_rejected_witness:
  "snd (callGeminiAPI None ''hello''
      (Resolved \<lparr>status = 200, json_result = Inr empty_text_body\<rparr>) example_state)
     = Inl \<lparr>name = ''Error'', message = ''Invalid response from Gemini API''\<rparr>
   \<and> history (rewriteWithGemini None ''hello''
      (Resolved \<lparr>status = 200, json_result = Inr empty_text_body\<rparr>) 7 example_state) = []"
proof -
  let ?r = "\<lparr>status = 200, json_result = Inr empty_text_body\<rparr>"
  have h: "''hello'' \<noteq> []" "apiKey_of None (settings example_state) \<noteq> []" "ok ?r"
    "json_result ?r = Inr empty_text_body"
    "text_path empty_text_body = Some (JStr [])"
    by (simp_all add: example_key ok_def text_path_def empty_text_body_def)
  have e: "history example_state = []"
    by (simp add: example_state_def example_settings_def)
  from empty_text_rejected [OF h, of 7]
  show ?thesis by (simp add: e new_Error_def invalid_response_message_def)
qed

lemma addToHistory_history_cong:
  assumes "settings s' = settings s"
  shows "history (addToHistory a b c n s') = history (addToHistory a b c n s)"
  using assms by (simp add: addToHistory_def saveSettings_def Let_def)

lemma addToHistory_room:
  assumes "int (length (history s)) < maxHistoryItems (settings s)"
  shows "history (addToHistory a b c n s) =
         historyItem_of (selectedModel (settings s)) (a, b, c, n) # history s"
  using assms by (simp add: addToHistory_def saveSettings_def Let_def historyItem_of_def)

text \<open>
  C4. A response with a 2xx status whose body has a non-empty string \<open>t\<close> at the text
  path (\<open>''Rewritten.''\<close> for the body of the claim) makes the call return \<open>t\<close>, and
  the run appends once: the log is what one \<^verbatim>\<open>addToHistory\<close> of the selection and
  \<open>t\<close> gives, which is the new record in front of the old log when the limit leaves
  room.
\<close>

theorem successful_rewrite_recorded:
  assumes "selection \<noteq> []" and "apiKey_of env (settings s) \<noteq> []"
    and "ok r" and "json_result r = Inr d" and "text_path d = Some (JStr t)" and "t \<noteq> []"
  shows "snd (callGeminiAPI env selection (Resolved r) s) = Inr (JStr t)
       \<and> history (rewriteWithGemini env selection (Resolved r) now s) =
           history (addToHistory selection (JStr t) (customPrompt (settings s)) now s)
       \<and> (int (length (history s)) < maxHistoryItems (settings s) \<longrightarrow>
            history (rewriteWithGemini env selection (Resolved r) now s) =
              \<lparr>originalText = selection, rewrittenText = JStr t,
               prompt = customPrompt (settings s), timestamp = now,
               model = selectedModel (settings s)\<rparr> # history s)
       \<and> replaced (rewriteWithGemini env selection (Resolved r) now s) = replaced s @ [JStr t]
       \<and> notices (rewriteWithGemini env selection (Resolved r) now s) =
           notices s @ [''Text successfully rewritten'']"
proof -
  let ?s1 = "fst (callGeminiAPI_issue env selection (setLoadingState True s))"
  let ?s2 = "fst (callGeminiAPI_complete (Resolved r) ?s1)"
  have rr: "read_response r = Inr (JStr t)"
    using assms(3-6) by (simp add: read_response_text)
  then have res: "snd (callGeminiAPI_complete (Resolved r) ?s1) = Inr (JStr t)"
    by (simp add: callGeminiAPI_complete_snd)
  have run: "rewriteWithGemini env selection (Resolved r) now s =
      rewriteWithGemini_then selection (JStr t) now ?s2"
    using assms(1,2) by (simp add: rewriteWithGemini_with_key rewriteWithGemini_resume_succeeded [OF res])
  have st: "settings ?s2 = settings s" "notices ?s2 = notices s"
    by (simp_all add: callGeminiAPI_complete_keeps callGeminiAPI_issue_keeps setLoadingState_keeps)
  have rp: "replaced ?s2 = replaced s"
    by (simp add: callGeminiAPI_complete_keeps callGeminiAPI_issue_def Let_def setLoadingState_keeps)
  have h: "history (rewriteWithGemini env selection (Resolved r) now s) =
           history (addToHistory selection (JStr t) (customPrompt (settings s)) now s)"
    by (simp add: run rewriteWithGemini_then_keeps st addToHistory_history_cong [OF st(1)])
  have "int (length (history s)) < maxHistoryItems (settings s) \<longrightarrow>
            history (rewriteWithGemini env selection (Resolved r) now s) =
              \<lparr>originalText = selection, rewrittenText = JStr t,
               prompt = customPrompt (settings s), timestamp = now,
               model = selectedModel (settings s)\<rparr> # history s"
    by (simp add: h addToHistory_room historyItem_of_def)
  moreover have "snd (callGeminiAPI env selection (Resolved r) s) = Inr (JStr t)"
    by (simp add: callGeminiAPI_result_with_key [OF assms(2)] rr)
  moreover have "replaced (rewriteWithGemini env selection (Resolved r) now s) = replaced s @ [JStr t]"
    by (simp add: run rewriteWithGemini_then_keeps rp)
  moreover have "notices (rewriteWithGemini env selection (Resolved r) now s) =
           notices s @ [''Text successfully rewritten'']"
    by (simp add: run rewriteWithGemini_then_keeps st)
  ultimately show ?thesis using h by blast
qed

theorem successful_rewrite_recorded_witness:
  "snd (callGeminiAPI None ''hello''
      (Resolved \<lparr>status = 200, json_result = Inr rewritten_body\<rparr>) example_state)
     = Inr (JStr ''Rewritten.'')
   \<and> history (rewriteWithGemini None ''hello''
      (Resolved \<lparr>status = 200, json_result = Inr rewritten_body\<rparr>) 7 example_state)
     = [\<lparr>originalText = ''hello'', rewrittenText = JStr ''Rewritten.'',
         prompt = ''Please rewrite the following text:'', timestamp = 7,
         model = ''gemini-2.0-flash''\<rparr>]"
proof -
  let ?r = "\<lparr>status = 200, json_result = Inr rewritten_body\<rparr>"
  have h: "''hello'' \<noteq> []" "apiKey_of None (settings example_state) \<noteq> []" "ok ?r"
    "json_result ?r = Inr rewritten_body"
    "text_path rewritten_body = Some (JStr ''Rewritten.'')" "''Rewritten.'' \<noteq> []"
    by (simp_all add: example_key ok_def text_path_def rewritten_body_def)
  have e: "history example_state = []" "maxHistoryItems (settings example_state) = 2"
    "customPrompt (settings example_state) = ''Please rewrite the following text:''"
    "selectedModel (settings example_state) = ''gemini-2.0-flash''"
    by (simp_all add: example_state_def example_settings_def)
  have lt: "int (length ([]::RewriteHistoryItem list)) < 2" by simp
  from successful_rewrite_recorded [OF h, of 7, unfolded e] lt
  show ?thesis by blast
qed

text \<open>
  C2, as amended. A response with a status outside 200..299 makes the call fail with an
  error whose message is ``API request failed: '' followed by the body's
  \<^verbatim>\<open>error.message\<close> when that is a non-empty string, and followed by
  ``Status: '' and the status code when the body does not parse, has no such member, or
  has a falsy one.
\<close>

theorem upstream_error_message:
  assumes "apiKey_of env (settings s) \<noteq> []" and "\<not> ok r"
  shows "(\<forall>d m. json_result r = Inr d
            \<and> opt_chain (opt_chain (Some d) (get_prop ''error'')) (get_prop ''message'') = Some (JStr m)
            \<and> m \<noteq> [] \<longrightarrow>
            snd (callGeminiAPI env inputText (Resolved r) s) =
              Inl (new_Error (''API request failed: '' @ m)))
       \<and> ((\<exists>e. json_result r = Inl e)
          \<or> (\<exists>d. json_result r = Inr d
                \<and> (opt_chain (opt_chain (Some d) (get_prop ''error'')) (get_prop ''message'') = None
                   \<or> (\<exists>v. opt_chain (opt_chain (Some d) (get_prop ''error'')) (get_prop ''message'') = Some v
                          \<and> \<not> truthy v))) \<longrightarrow>
            snd (callGeminiAPI env inputText (Resolved r) s) =
              Inl (new_Error (''API request failed: Status: '' @ dec_nat (status r))))"
proof -
  have res: "snd (callGeminiAPI env inputText (Resolved r) s) =
      Inl (new_Error (''API request failed: '' @ error_message_of r))"
    using assms by (simp add: callGeminiAPI_result_with_key read_response_def)
  show ?thesis
    unfolding res by (auto simp: error_message_of_def Let_def)
qed

theorem upstream_error_message_witness:
  "snd (callGeminiAPI None ''hello'' (Resolved rate_limited_response) example_state)
     = Inl \<lparr>name = ''Error'', message = ''API request failed: rate limited''\<rparr>
   \<and> snd (callGeminiAPI None ''hello'' (Resolved unparsable_503_response) example_state)
     = Inl \<lparr>name = ''Error'', message = ''API request failed: Status: 503''\<rparr>"
proof -
  have k: "apiKey_of None (settings example_state) \<noteq> []" by (simp add: example_key)
  have n1: "\<not> ok rate_limited_response" and n2: "\<not> ok unparsable_503_response"
    by (simp_all add: ok_def rate_limited_response_def unparsable_503_response_def)
  have p1: "json_result rate_limited_response =
        Inr (JObj [(''error'', JObj [(''message'', JStr ''rate limited'')])])
      \<and> opt_chain (opt_chain (Some (JObj [(''error'', JObj [(''message'', JStr ''rate limited'')])]))
            (get_prop ''error'')) (get_prop ''message'') = Some (JStr ''rate limited'')
      \<and> ''rate limited'' \<noteq> []"
    by (simp add: rate_limited_response_def)
  have p2: "\<exists>e. json_result unparsable_503_response = Inl e"
    by (simp add: unparsable_503_response_def)
  have d: "dec_nat (status unparsable_503_response) = ''503''"
    by (simp add: unparsable_503_response_def dec_nat.simps)
  from upstream_error_message [OF k n1, of "''hello''"] p1
  have 1: "snd (callGeminiAPI None ''hello'' (Resolved rate_limited_response) example_state)
     = Inl (new_Error (''API request failed: '' @ ''rate limited''))"
    by blast
  from upstream_error_message [OF k n2, of "''hello''"] p2
  have 2: "snd (callGeminiAPI None ''hello'' (Resolved unparsable_503_response) example_state)
     = Inl (new_Error (''API request failed: Status: '' @ dec_nat (status unparsable_503_response)))"
    by blast
  show ?thesis using 1 2 by (simp add: d new_Error_def)
qed

text \<open>
  The claim C2 as stated fails: for status 429 with the body
  \<^verbatim>\<open>{"error":{"message":"rate limited"}}\<close> the message is
  ``API request failed: rate limited'', not ``rate limited''; and for an unparsable
  body with status 503 it is ``API request failed: Status: 503'', not the bare code.
\<close>

theorem upstream_message_not_verbatim:
  "snd (callGeminiAPI None ''hello'' (Resolved rate_limited_response) example_state)
     = Inl \<lparr>name = ''Error'', message = ''API request failed: rate limited''\<rparr>
   \<and> message (projl (snd (callGeminiAPI None ''hello'' (Resolved rate_limited_response) example_state)))
       \<noteq> ''rate limited''
   \<and> notices (rewriteWithGemini None ''hello'' (Resolved rate_limited_response) 7 example_state)
     = [''Error: API request failed: rate limited'']
   \<and> snd (callGeminiAPI None ''hello'' (Resolved unparsable_503_response) example_state)
     = Inl \<lparr>name = ''Error'', message = ''API request failed: Status: 503''\<rparr>
   \<and> message (projl (snd (callGeminiAPI None ''hello'' (Resolved unparsable_503_response) example_state)))
       \<noteq> ''503''"
proof -
  have k: "apiKey_of None (settings example_state) \<noteq> []" by (simp add: example_key)
  have rr: "read_response rate_limited_response =
      Inl \<lparr>name = ''Error'', message = ''API request failed: rate limited''\<rparr>"
    by (simp add: read_response_def ok_def rate_limited_response_def error_message_of_def
        new_Error_def)
  have rr2: "read_response unparsable_503_response =
      Inl \<lparr>name = ''Error'', message = ''API request failed: Status: 503''\<rparr>"
    by (simp add: read_response_def ok_def unparsable_503_response_def error_message_of_def
        new_Error_def dec_nat.simps)
  have 1: "snd (callGeminiAPI None ''hello'' (Resolved rate_limited_response) example_state)
     = Inl \<lparr>name = ''Error'', message = ''API request failed: rate limited''\<rparr>"
    by (simp add: callGeminiAPI_result_with_key [OF k] rr)
  have 2: "snd (callGeminiAPI None ''hello'' (Resolved unparsable_503_response) example_state)
     = Inl \<lparr>name = ''Error'', message = ''API request failed: Status: 503''\<rparr>"
    by (simp add: callGeminiAPI_result_with_key [OF k] rr2)
  have "notices (rewriteWithGemini None ''hello'' (Resolved rate_limited_response) 7 example_state)
     = notices example_state @ [''Error: API request failed: rate limited'']"
    using rewriteWithGemini_failed_run(2) [OF _ k rr, of "''hello''" 7] by simp
  then show ?thesis using 1 2 by (simp add: example_state_def)
qed

text \<open>
  The missing key is thrown before the \<^verbatim>\<open>try\<close> of \<^verbatim>\<open>callGeminiAPI\<close>: no
  request is issued, and the controller created for the call stays tracked.
\<close>

lemma missing_key_leaves_controller_tracked:
  assumes "selection \<noteq> []" and "apiKey_of env (settings s) = []"
  shows "abortController (rewriteWithGemini env selection outcome now s) = Some (controllers s)"
  by (simp add: rewriteWithGemini_without_key [OF assms] rewriteWithGemini_catch_keeps
      callGeminiAPI_issue_keeps setLoadingState_keeps)

lemma cancel_while_waiting_example:
  "notices (rewriteWithGemini_resume ''hello'' (Rejected abort_error) 7
      (cancelCommand (fst (rewriteWithGemini_start None ''hello'' example_state))))
     = [''Attempting to cancel ongoing rewrite request'', ''Rewrite request cancelled'']
   \<and> history (rewriteWithGemini_resume ''hello'' (Rejected abort_error) 7
      (cancelCommand (fst (rewriteWithGemini_start None ''hello'' example_state)))) = []
   \<and> aborted (cancelCommand (fst (rewriteWithGemini_start None ''hello'' example_state))) = [0]"
proof -
  let ?s1 = "fst (rewriteWithGemini_start None ''hello'' example_state)"
  have s1: "?s1 = fst (callGeminiAPI_issue None ''hello'' (setLoadingState True example_state))"
    by (simp add: rewriteWithGemini_start_with_key example_key)
  have p: "abortController ?s1 = Some 0" "notices ?s1 = []" "aborted ?s1 = []" "history ?s1 = []"
    unfolding s1
    by (simp_all add: callGeminiAPI_issue_keeps setLoadingState_keeps)
      (simp_all add: example_state_def example_settings_def)
  have c: "notices (cancelCommand ?s1) =
        [''Attempting to cancel ongoing rewrite request'', ''Rewrite request cancelled'']"
      "aborted (cancelCommand ?s1) = [0]" "history (cancelCommand ?s1) = []"
    using p
    by (simp_all add: cancelCommand_def cancelOngoingRewrite_def notice_keeps setLoadingState_keeps)
  have r: "snd (callGeminiAPI_complete (Rejected abort_error) (cancelCommand ?s1)) = Inl abort_error"
    by (simp add: callGeminiAPI_complete_snd)
  have n: "name abort_error = ''AbortError''" by (simp add: abort_error_def)
  show ?thesis
    using c n
    by (simp add: rewriteWithGemini_resume_failed [OF r] rewriteWithGemini_catch_keeps
        callGeminiAPI_complete_keeps)
qed

section \<open>The key of the request\<close>

lemma callGeminiAPI_issue_fetched:
  assumes "apiKey_of env (settings s) \<noteq> []"
  shows "fetched (fst (callGeminiAPI_issue env inputText s)) =
         fetched s @ [request_with_key (apiKey_of env (settings s)) inputText s]"
  using assms by (simp add: callGeminiAPI_issue_def Let_def request_with_key_def)

lemma request_with_key_loading:
  "request_with_key k inputText (setLoadingState b s) = request_with_key k inputText s"
  by (simp add: request_with_key_def setLoadingState_keeps)

lemma callGeminiAPI_fetched:
  assumes "apiKey_of env (settings s) \<noteq> []"
  shows "fetched (fst (callGeminiAPI env inputText outcome s)) =
         fetched s @ [request_with_key (apiKey_of env (settings s)) inputText s]"
  by (simp add: callGeminiAPI_with_key [OF assms] callGeminiAPI_complete_keeps
      callGeminiAPI_issue_fetched [OF assms])

lemma rewriteWithGemini_fetched:
  assumes "selection \<noteq> []" and "apiKey_of env (settings s) \<noteq> []"
  shows "fetched (rewriteWithGemini env selection outcome now s) =
         fetched s @ [request_with_key (apiKey_of env (settings s)) selection s]"
proof -
  have k: "apiKey_of env (settings (setLoadingState True s)) \<noteq> []"
    using assms(2) by (simp add: setLoadingState_keeps)
  show ?thesis
    by (simp add: rewriteWithGemini_with_key [OF assms] rewriteWithGemini_resume_keeps
        callGeminiAPI_issue_fetched [OF k] setLoadingState_keeps request_with_key_loading)
qed

text \<open>
  C3, as amended. The key used is the environment's when \<^verbatim>\<open>useEnvApiKey\<close> is set and
  the environment variable is set and not empty, and the key of the settings otherwise
  (also when \<^verbatim>\<open>useEnvApiKey\<close> is set and the variable is unset or empty); a call and
  a run whose key is not empty issue exactly one request, and its URL carries that key.
  When the key used is empty the call fails with the missing-key error and no request is
  issued; the run then leaves the history unchanged and shows the error.
\<close>

theorem credential_resolution:
  "(useEnvApiKey (settings s) \<and> env = Some k \<and> k \<noteq> [] \<longrightarrow>
        apiKey_of env (settings s) = k
      \<and> fetched (fst (callGeminiAPI env inputText outcome s)) =
          fetched s @ [request_with_key k inputText s]
      \<and> (selection \<noteq> [] \<longrightarrow>
            fetched (rewriteWithGemini env selection outcome now s) =
              fetched s @ [request_with_key k selection s]))
   \<and> (\<not> useEnvApiKey (settings s) \<or> env = None \<or> env = Some [] \<longrightarrow>
        apiKey_of env (settings s) = geminiApiKey (settings s)
      \<and> (geminiApiKey (settings s) \<noteq> [] \<longrightarrow>
            fetched (fst (callGeminiAPI env inputText outcome s)) =
              fetched s @ [request_with_key (geminiApiKey (settings s)) inputText s]
          \<and> (selection \<noteq> [] \<longrightarrow>
                fetched (rewriteWithGemini env selection outcome now s) =
                  fetched s @ [request_with_key (geminiApiKey (settings s)) selection s])))
   \<and> (apiKey_of env (settings s) = [] \<longrightarrow>
        snd (callGeminiAPI env inputText outcome s) = Inl (new_Error missing_key_message)
      \<and> fetched (fst (callGeminiAPI env inputText outcome s)) = fetched s
      \<and> (selection \<noteq> [] \<longrightarrow>
            fetched (rewriteWithGemini env selection outcome now s) = fetched s
          \<and> history (rewriteWithGemini env selection outcome now s) = history s
          \<and> notices (rewriteWithGemini env selection outcome now s) =
              notices s @ [''Error: '' @ missing_key_message]))"
proof (intro conjI impI)
  assume a: "useEnvApiKey (settings s) \<and> env = Some k \<and> k \<noteq> []"
  then show key: "apiKey_of env (settings s) = k" by (simp add: apiKey_of_def)
  have ne: "apiKey_of env (settings s) \<noteq> []" using a key by simp
  show "fetched (fst (callGeminiAPI env inputText outcome s)) =
          fetched s @ [request_with_key k inputText s]"
    using callGeminiAPI_fetched [OF ne, of inputText outcome] by (simp add: key)
  assume sel: "selection \<noteq> []"
  show "fetched (rewriteWithGemini env selection outcome now s) =
              fetched s @ [request_with_key k selection s]"
    using rewriteWithGemini_fetched [OF sel ne, of outcome now] by (simp add: key)
next
  assume a: "\<not> useEnvApiKey (settings s) \<or> env = None \<or> env = Some []"
  then show key: "apiKey_of env (settings s) = geminiApiKey (settings s)"
    by (auto simp: apiKey_of_def)
  assume g: "geminiApiKey (settings s) \<noteq> []"
  have ne: "apiKey_of env (settings s) \<noteq> []" using g key by simp
  show "fetched (fst (callGeminiAPI env inputText outcome s)) =
              fetched s @ [request_with_key (geminiApiKey (settings s)) inputText s]"
    using callGeminiAPI_fetched [OF ne, of inputText outcome] by (simp add: key)
  assume sel: "selection \<noteq> []"
  show "fetched (rewriteWithGemini env selection outcome now s) =
                  fetched s @ [request_with_key (geminiApiKey (settings s)) selection s]"
    using rewriteWithGemini_fetched [OF sel ne, of outcome now] by (simp add: key)
next
  assume k: "apiKey_of env (settings s) = []"
  show "snd (callGeminiAPI env inputText outcome s) = Inl (new_Error missing_key_message)"
    by (simp add: callGeminiAPI_without_key [OF k])
  show "fetched (fst (callGeminiAPI env inputText outcome s)) = fetched s"
    by (simp add: callGeminiAPI_without_key [OF k] callGeminiAPI_issue_no_key [OF k])
  assume sel: "selection \<noteq> []"
  have k': "apiKey_of env (settings (setLoadingState True s)) = []"
    using k by (simp add: setLoadingState_keeps)
  note run = rewriteWithGemini_without_key [OF sel k]
  show "fetched (rewriteWithGemini env selection outcome now s) = fetched s"
    by (simp add: run rewriteWithGemini_catch_keeps callGeminiAPI_issue_no_key [OF k']
        setLoadingState_keeps)
  show "history (rewriteWithGemini env selection outcome now s) = history s"
    by (simp add: run rewriteWithGemini_catch_keeps callGeminiAPI_issue_keeps setLoadingState_keeps)
  show "notices (rewriteWithGemini env selection outcome now s) =
              notices s @ [''Error: '' @ missing_key_message]"
    by (simp add: run rewriteWithGemini_catch_keeps callGeminiAPI_issue_keeps setLoadingState_keeps
        new_Error_def missing_key_message_def)
qed

theorem credential_resolution_witness:
  "apiKey_of (Some ''from-env'') (settings example_state) = ''from-env''
   \<and> map url (fetched (rewriteWithGemini (Some ''from-env'') ''hello''
        (Resolved \<lparr>status = 200, json_result = Inr rewritten_body\<rparr>) 7 example_state))
       = [''https://generativelanguage.googleapis.com/v1beta/models/gemini-2.0-flash:generateContent?key=from-env'']
   \<and> apiKey_of None (settings example_state) = ''k''
   \<and> map url (fetched (rewriteWithGemini None ''hello''
        (Resolved \<lparr>status = 200, json_result = Inr rewritten_body\<rparr>) 7 example_state))
       = [''https://generativelanguage.googleapis.com/v1beta/models/gemini-2.0-flash:generateContent?key=k'']
   \<and> snd (callGeminiAPI None ''hello'' (Resolved \<lparr>status = 200, json_result = Inr rewritten_body\<rparr>)
        keyless_state) = Inl (new_Error missing_key_message)
   \<and> fetched (rewriteWithGemini None ''hello''
        (Resolved \<lparr>status = 200, json_result = Inr rewritten_body\<rparr>) 7 keyless_state) = []
   \<and> history (rewriteWithGemini None ''hello''
        (Resolved \<lparr>status = 200, json_result = Inr rewritten_body\<rparr>) 7 keyless_state) = []"
proof -
  let ?out = "Resolved \<lparr>status = 200, json_result = Inr rewritten_body\<rparr>"
  have u: "useEnvApiKey (settings example_state) \<and> Some ''from-env'' = Some ''from-env'' \<and> ''from-env'' \<noteq> []"
    by (simp add: example_state_def example_settings_def)
  have h: "''hello'' \<noteq> []" by simp
  have g: "geminiApiKey (settings example_state) = ''k''"
    by (simp add: example_state_def example_settings_def)
  have gne: "geminiApiKey (settings example_state) \<noteq> []" by (simp add: g)
  have nk: "apiKey_of None (settings keyless_state) = []"
    by (simp add: apiKey_of_def keyless_state_def example_settings_def)
  have e: "fetched keyless_state = []" "history keyless_state = []"
    by (simp_all add: keyless_state_def example_state_def example_settings_def)
  have f: "fetched example_state = []" by (simp add: example_state_def)
  have u1: "url (request_with_key ''from-env'' ''hello'' example_state) =
      ''https://generativelanguage.googleapis.com/v1beta/models/gemini-2.0-flash:generateContent?key=from-env''"
    and u2: "url (request_with_key ''k'' ''hello'' example_state) =
      ''https://generativelanguage.googleapis.com/v1beta/models/gemini-2.0-flash:generateContent?key=k''"
    by (simp_all add: request_with_key_def example_state_def example_settings_def)
  from credential_resolution
    [of example_state "Some ''from-env''" "''from-env''" "''hello''" ?out "''hello''" 7] u h
  have 1: "apiKey_of (Some ''from-env'') (settings example_state) = ''from-env''
      \<and> fetched (rewriteWithGemini (Some ''from-env'') ''hello'' ?out 7 example_state) =
          fetched example_state @ [request_with_key ''from-env'' ''hello'' example_state]"
    by blast
  from credential_resolution [of example_state None _ "''hello''" ?out "''hello''" 7] gne h
  have 2: "apiKey_of None (settings example_state) = geminiApiKey (settings example_state)
      \<and> fetched (rewriteWithGemini None ''hello'' ?out 7 example_state) =
          fetched example_state @ [request_with_key (geminiApiKey (settings example_state)) ''hello'' example_state]"
    by blast
  from credential_resolution [of keyless_state None _ "''hello''" ?out "''hello''" 7] nk
  have 3: "snd (callGeminiAPI None ''hello'' ?out keyless_state) = Inl (new_Error missing_key_message)
      \<and> fetched (rewriteWithGemini None ''hello'' ?out 7 keyless_state) = fetched keyless_state
      \<and> history (rewriteWithGemini None ''hello'' ?out 7 keyless_state) = history keyless_state"
    by simp
  show ?thesis using 1 2 3 unfolding e g by (simp add: f u1 u2)
qed

text \<open>
  The claim C3 as stated fails: with \<^verbatim>\<open>useEnvApiKey\<close> set and the environment
  variable unset, the key used is the one of the settings, and the request is issued
  with it.
\<close>

theorem env_credential_falls_back_to_settings:
  "useEnvApiKey (settings example_state)
   \<and> apiKey_of None (settings example_state) = ''k''
   \<and> geminiApiKey (settings example_state) = ''k''
   \<and> snd (callGeminiAPI None ''hello''
        (Resolved \<lparr>status = 200, json_result = Inr rewritten_body\<rparr>) example_state)
       = Inr (JStr ''Rewritten.'')
   \<and> map url (fetched (fst (callGeminiAPI None ''hello''
        (Resolved \<lparr>status = 200, json_result = Inr rewritten_body\<rparr>) example_state)))
       = [''https://generativelanguage.googleapis.com/v1beta/models/gemini-2.0-flash:generateContent?key=k'']"
proof -
  let ?r = "\<lparr>status = 200, json_result = Inr rewritten_body\<rparr>"
  have k: "apiKey_of None (settings example_state) \<noteq> []" by (simp add: example_key)
  have rr: "read_response ?r = Inr (JStr ''Rewritten.'')"
    by (rule read_response_text [where d = rewritten_body])
      (simp_all add: ok_def text_path_def rewritten_body_def)
  have 1: "snd (callGeminiAPI None ''hello'' (Resolved ?r) example_state) = Inr (JStr ''Rewritten.'')"
    by (simp add: callGeminiAPI_result_with_key [OF k] rr)
  have 2: "map url (fetched (fst (callGeminiAPI None ''hello'' (Resolved ?r) example_state)))
       = [''https://generativelanguage.googleapis.com/v1beta/models/gemini-2.0-flash:generateContent?key=k'']"
    by (simp add: callGeminiAPI_with_key [OF k] callGeminiAPI_complete_keeps callGeminiAPI_issue_def
        Let_def example_key)
      (simp add: example_state_def example_settings_def)
  show ?thesis using 1 2
    by (simp add: example_key) (simp add: example_state_def example_settings_def)
qed

end
